theory Spec2Isabelle
  imports Complex_Main
begin

section \<open>Numbers and failures of the JavaScript source\<close>

text \<open>
  The simulation computes with JavaScript numbers. A finite number is modelled as a
  \<^typ>\<open>real\<close>, so rounding is left out: what the specification states "within numeric
  tolerance" is stated exactly here. Where the source would produce \<^verbatim>\<open>NaN\<close> or an
  infinity (a division by zero, \<^verbatim>\<open>Math.pow\<close> outside its real domain, arithmetic on
  \<^verbatim>\<open>undefined\<close>), no real number stands for the result and the model answers
  \<open>Inl NotFinite\<close>; where the source would throw (a property read on
  \<^verbatim>\<open>undefined\<close>), it answers \<open>Inl TypeError\<close>. Except in \<^verbatim>\<open>updateEngine\<close>,
  the model does not follow the source past either.
\<close>

datatype js_error = TypeError | NotFinite

definition js_div :: "real \<Rightarrow> real \<Rightarrow> js_error + real" where
  "js_div a b = (if b = 0 then Inl NotFinite else Inr (a / b))"

text \<open>
  \<^verbatim>\<open>Math.pow(x, y)\<close>: 1 for a zero exponent, the real power for a positive base,
  0 for base 0 and a positive exponent, the integer power for a negative base and an integral
  exponent, and \<^verbatim>\<open>NaN\<close> or \<^verbatim>\<open>Infinity\<close> otherwise.
\<close>

definition Math_pow :: "real \<Rightarrow> real \<Rightarrow> js_error + real" where
  "Math_pow x y =
     (if y = 0 then Inr 1
      else if 0 < x then Inr (x powr y)
      else if x = 0 then (if 0 < y then Inr 0 else Inl NotFinite)
      else if frac y = 0 then Inr (x powi \<lfloor>y\<rfloor>)
      else Inl NotFinite)"

text \<open>\<^verbatim>\<open>Math.atan2(y, x)\<close> on finite arguments.\<close>

definition Math_atan2 :: "real \<Rightarrow> real \<Rightarrow> real" where
  "Math_atan2 y x =
     (if 0 < x then arctan (y / x)
      else if x < 0 then (if 0 \<le> y then arctan (y / x) + pi else arctan (y / x) - pi)
      else if 0 < y then pi / 2
      else if y < 0 then - (pi / 2)
      else 0)"

text \<open>
  Where the source goes on computing with an infinity or with \<^verbatim>\<open>NaN\<close> and the outcome
  matters, the model follows it with the values of a JavaScript number: a finite number,
  the two infinities and \<^verbatim>\<open>NaN\<close>. The operations below are those of IEEE 754 arithmetic
  without rounding, overflow or a negative zero: a zero divisor counts as \<open>+0\<close>.
\<close>

datatype jsnum = Num real | PosInf | NegInf | NaN

text \<open>The quotient \<^verbatim>\<open>a / b\<close> of two finite numbers.\<close>

definition jn_div :: "real \<Rightarrow> real \<Rightarrow> jsnum" where
  "jn_div a b =
     (if b \<noteq> 0 then Num (a / b)
      else if 0 < a then PosInf
      else if a < 0 then NegInf
      else NaN)"

fun jn_times :: "jsnum \<Rightarrow> jsnum \<Rightarrow> jsnum" where
  "jn_times NaN y = NaN"
| "jn_times x NaN = NaN"
| "jn_times (Num a) (Num b) = Num (a * b)"
| "jn_times (Num a) PosInf = (if 0 < a then PosInf else if a < 0 then NegInf else NaN)"
| "jn_times (Num a) NegInf = (if 0 < a then NegInf else if a < 0 then PosInf else NaN)"
| "jn_times PosInf (Num b) = (if 0 < b then PosInf else if b < 0 then NegInf else NaN)"
| "jn_times NegInf (Num b) = (if 0 < b then NegInf else if b < 0 then PosInf else NaN)"
| "jn_times PosInf PosInf = PosInf"
| "jn_times PosInf NegInf = NegInf"
| "jn_times NegInf PosInf = NegInf"
| "jn_times NegInf NegInf = PosInf"

fun jn_plus :: "jsnum \<Rightarrow> jsnum \<Rightarrow> jsnum" where
  "jn_plus NaN y = NaN"
| "jn_plus x NaN = NaN"
| "jn_plus (Num a) (Num b) = Num (a + b)"
| "jn_plus PosInf NegInf = NaN"
| "jn_plus NegInf PosInf = NaN"
| "jn_plus PosInf y = PosInf"
| "jn_plus x PosInf = PosInf"
| "jn_plus NegInf y = NegInf"
| "jn_plus x NegInf = NegInf"

fun jn_uminus :: "jsnum \<Rightarrow> jsnum" where
  "jn_uminus (Num a) = Num (- a)"
| "jn_uminus PosInf = NegInf"
| "jn_uminus NegInf = PosInf"
| "jn_uminus NaN = NaN"

definition jn_minus :: "jsnum \<Rightarrow> jsnum \<Rightarrow> jsnum" where
  "jn_minus x y = jn_plus x (jn_uminus y)"

text \<open>The comparison \<^verbatim>\<open>x < y\<close>, false as soon as one side is \<^verbatim>\<open>NaN\<close>.\<close>

fun jn_less :: "jsnum \<Rightarrow> jsnum \<Rightarrow> bool" where
  "jn_less NaN y = False"
| "jn_less x NaN = False"
| "jn_less (Num a) (Num b) = (a < b)"
| "jn_less x NegInf = False"
| "jn_less PosInf y = False"
| "jn_less NegInf y = True"
| "jn_less x PosInf = True"

text \<open>\<^verbatim>\<open>Math.min\<close> and \<^verbatim>\<open>Math.max\<close> of two numbers.\<close>

definition Math_min :: "jsnum \<Rightarrow> jsnum \<Rightarrow> jsnum" where
  "Math_min x y = (if x = NaN \<or> y = NaN then NaN else if jn_less x y then x else y)"

definition Math_max :: "jsnum \<Rightarrow> jsnum \<Rightarrow> jsnum" where
  "Math_max x y = (if x = NaN \<or> y = NaN then NaN else if jn_less x y then y else x)"

section \<open>Configuration (PHYSICS_CONFIG, RX8_CONFIG, F1_CONFIG)\<close>

definition gravity :: real where
  "gravity = 9.81"

definition airDensity :: real where
  "airDensity = 1.225"

record axle_pair =
  front :: real
  rear :: real

record pacejka_coefficients =
  pacejka_B :: real
  pacejka_C :: real
  pacejka_D :: real
  pacejka_E :: real

record tire =
  radius :: real
  width :: real
  peakMu :: real
  loadSensitivity :: real
  pacejka :: pacejka_coefficients

record torque_point =
  point_rpm :: real
  torque :: real

record drs_config =
  dragReduction :: real
  downforceReduction :: real
  activationDelay :: real

text \<open>
  The fields of a vehicle configuration that the physics code reads. The aerodynamic fields
  after \<open>frontalArea\<close> exist in the race configuration only, so they are optional.
\<close>

record vehicle_config =
  mass :: real
  wheelbase :: real
  trackWidth :: axle_pair
  cgHeight :: real
  weightDistribution :: axle_pair
  springRate :: axle_pair
  tire :: tire
  torqueCurve :: "torque_point list"
  maxRPM :: real
  idleRPM :: real
  gearRatios :: "real list"
  finalDrive :: real
  dragCoefficient :: real
  frontalArea :: real
  downforceCoefficient :: "axle_pair option"
  downforceBalance :: "real option"
  groundEffectMultiplier :: "real option"
  drs :: "drs_config option"
  brakeForce :: axle_pair

definition RX8_tire :: tire where
  "RX8_tire = \<lparr>radius = 0.323, width = 0.245, peakMu = 1.15, loadSensitivity = 0.8,
     pacejka = \<lparr>pacejka_B = 10, pacejka_C = 1.5, pacejka_D = 1.15, pacejka_E = 0.97\<rparr>\<rparr>"

definition F1_tire :: tire where
  "F1_tire = \<lparr>radius = 0.330, width = 0.305, peakMu = 1.8, loadSensitivity = 0.7,
     pacejka = \<lparr>pacejka_B = 12, pacejka_C = 1.8, pacejka_D = 1.8, pacejka_E = 0.95\<rparr>\<rparr>"

definition RX8_CONFIG :: vehicle_config where
  "RX8_CONFIG =
     \<lparr>mass = 1390, wheelbase = 2.700,
      trackWidth = \<lparr>front = 1.500, rear = 1.505\<rparr>,
      cgHeight = 0.450,
      weightDistribution = \<lparr>front = 0.50, rear = 0.50\<rparr>,
      springRate = \<lparr>front = 27500, rear = 20000\<rparr>,
      tire = RX8_tire,
      torqueCurve = [\<lparr>point_rpm = 3000, torque = 200\<rparr>, \<lparr>point_rpm = 5500, torque = 216\<rparr>,
                     \<lparr>point_rpm = 8500, torque = 180\<rparr>, \<lparr>point_rpm = 9000, torque = 160\<rparr>],
      maxRPM = 9000, idleRPM = 850,
      gearRatios = [3.815, 2.260, 1.640, 1.177, 1.000, 0.832],
      finalDrive = 4.444,
      dragCoefficient = 0.31, frontalArea = 2.0,
      downforceCoefficient = None, downforceBalance = None,
      groundEffectMultiplier = None, drs = None,
      brakeForce = \<lparr>front = 3500, rear = 2000\<rparr>\<rparr>"

definition F1_CONFIG :: vehicle_config where
  "F1_CONFIG =
     \<lparr>mass = 798, wheelbase = 3.600,
      trackWidth = \<lparr>front = 2.000, rear = 2.000\<rparr>,
      cgHeight = 0.280,
      weightDistribution = \<lparr>front = 0.455, rear = 0.545\<rparr>,
      springRate = \<lparr>front = 200000, rear = 150000\<rparr>,
      tire = F1_tire,
      torqueCurve = [\<lparr>point_rpm = 8000, torque = 500\<rparr>, \<lparr>point_rpm = 10000, torque = 650\<rparr>,
                     \<lparr>point_rpm = 12000, torque = 700\<rparr>, \<lparr>point_rpm = 15000, torque = 600\<rparr>],
      maxRPM = 15000, idleRPM = 4000,
      gearRatios = [3.500, 2.618, 2.150, 1.778, 1.500, 1.267, 1.050, 0.850],
      finalDrive = 3.900,
      dragCoefficient = 0.7, frontalArea = 1.5,
      downforceCoefficient = Some \<lparr>front = 1.5, rear = 2.0\<rparr>,
      downforceBalance = Some 0.4,
      groundEffectMultiplier = Some 1.5,
      drs = Some \<lparr>dragReduction = 0.15, downforceReduction = 0.25, activationDelay = 0.5\<rparr>,
      brakeForce = \<lparr>front = 12000, rear = 8000\<rparr>\<rparr>"

section \<open>TireModel\<close>

text \<open>
  \<^verbatim>\<open>calculateForce(slip, load, tireConfig)\<close>, the Pacejka formula. The nominal load is
  the constant \<^verbatim>\<open>9.81 * 250\<close>.
\<close>

definition calculateForce :: "real \<Rightarrow> real \<Rightarrow> tire \<Rightarrow> js_error + real" where
  "calculateForce slip load tireConfig =
     (let normalizedLoad = load / (9.81 * 250) in
      case Math_pow normalizedLoad (loadSensitivity tireConfig) of
        Inl e \<Rightarrow> Inl e
      | Inr loadFactor \<Rightarrow>
          (let B = pacejka_B (pacejka tireConfig);
               C = pacejka_C (pacejka tireConfig);
               D = pacejka_D (pacejka tireConfig) * load * loadFactor;
               E = pacejka_E (pacejka tireConfig);
               Bx = B * slip;
               y = D * sin (C * arctan (Bx - E * (Bx - arctan Bx)))
           in Inr y))"

text \<open>
  The object returned by \<^verbatim>\<open>calculateCombinedForce\<close>. The early return carries the two
  forces only, so the other two fields are optional; \<^verbatim>\<open>utilizationRatio\<close> is a quotient
  by \<^verbatim>\<open>load * peakMu\<close>, which may be zero, and keeps its own failure.
\<close>

record combined_force =
  lateral :: real
  longitudinal :: real
  combinedSlip :: "real option"
  utilizationRatio :: "(js_error + real) option"

definition calculateCombinedForce ::
  "real \<Rightarrow> real \<Rightarrow> real \<Rightarrow> tire \<Rightarrow> js_error + combined_force" where
  "calculateCombinedForce slipLateral slipLongitudinal load tireConfig =
     (let maxForce = load * peakMu tireConfig;
          cs = sqrt (slipLateral * slipLateral + slipLongitudinal * slipLongitudinal)
      in if cs < 0.001
         then Inr \<lparr>lateral = 0, longitudinal = 0, combinedSlip = None, utilizationRatio = None\<rparr>
         else (case calculateForce cs load tireConfig of
                 Inl e \<Rightarrow> Inl e
               | Inr totalForce \<Rightarrow>
                   (let ratio = totalForce / cs
                    in Inr \<lparr>lateral = slipLateral * ratio,
                            longitudinal = slipLongitudinal * ratio,
                            combinedSlip = Some cs,
                            utilizationRatio = Some (js_div totalForce maxForce)\<rparr>)))"

text \<open>
  The same function with the quotient by the combined slip monitored: \<open>None\<close> reports that
  the division was reached with a denominator of magnitude below \<open>0.001\<close>.
\<close>

definition monitored_div :: "real \<Rightarrow> real \<Rightarrow> real option" where
  "monitored_div a b = (if \<bar>b\<bar> < 0.001 then None else Some (a / b))"

definition calculateCombinedForce_monitored ::
  "real \<Rightarrow> real \<Rightarrow> real \<Rightarrow> tire \<Rightarrow> (js_error + combined_force) option" where
  "calculateCombinedForce_monitored slipLateral slipLongitudinal load tireConfig =
     (let maxForce = load * peakMu tireConfig;
          cs = sqrt (slipLateral * slipLateral + slipLongitudinal * slipLongitudinal)
      in if cs < 0.001
         then Some (Inr \<lparr>lateral = 0, longitudinal = 0, combinedSlip = None,
                         utilizationRatio = None\<rparr>)
         else (case calculateForce cs load tireConfig of
                 Inl e \<Rightarrow> Some (Inl e)
               | Inr totalForce \<Rightarrow>
                   (case monitored_div totalForce cs of
                      None \<Rightarrow> None
                    | Some ratio \<Rightarrow>
                        Some (Inr \<lparr>lateral = slipLateral * ratio,
                                    longitudinal = slipLongitudinal * ratio,
                                    combinedSlip = Some cs,
                                    utilizationRatio = Some (js_div totalForce maxForce)\<rparr>))))"

text \<open>\<^verbatim>\<open>TireModel.calculateSlipAngle(lateralVelocity, longitudinalVelocity, steeringAngle)\<close>.\<close>

definition TireModel_calculateSlipAngle :: "real \<Rightarrow> real \<Rightarrow> real \<Rightarrow> real" where
  "TireModel_calculateSlipAngle lateralVelocity longitudinalVelocity steeringAngle =
     (if \<bar>longitudinalVelocity\<bar> < 0.1 then 0
      else (let slipAngle = Math_atan2 lateralVelocity \<bar>longitudinalVelocity\<bar> - steeringAngle
            in max (- pi / 2) (min (pi / 2) slipAngle)))"

text \<open>
  \<^verbatim>\<open>TireModel.calculateSlipRatio(wheelAngularVelocity, vehicleVelocity, wheelRadius,
  isBraking)\<close>. Both quotients are guarded by the source itself.
\<close>

definition TireModel_calculateSlipRatio :: "real \<Rightarrow> real \<Rightarrow> real \<Rightarrow> bool \<Rightarrow> real" where
  "TireModel_calculateSlipRatio wheelAngularVelocity vehicleVelocity wheelRadius isBraking =
     (let wheelLinearVelocity = wheelAngularVelocity * wheelRadius
      in if \<bar>vehicleVelocity\<bar> < 0.1 \<and> \<bar>wheelLinearVelocity\<bar> < 0.1 then 0
         else (let slipRatio =
                     (if isBraking \<or> wheelLinearVelocity < vehicleVelocity
                      then (if \<bar>vehicleVelocity\<bar> < 0.1 then - 1
                            else (wheelLinearVelocity - vehicleVelocity) / \<bar>vehicleVelocity\<bar>)
                      else (if \<bar>wheelLinearVelocity\<bar> < 0.1 then 0
                            else (wheelLinearVelocity - vehicleVelocity) / \<bar>wheelLinearVelocity\<bar>))
               in max (- 1) (min 1 slipRatio)))"

text \<open>
  The same function with its two quotients monitored: \<open>None\<close> reports that a division was
  reached with a denominator of magnitude below \<open>0.1\<close>, a zero denominator included.
\<close>

definition monitored_div_at :: "real \<Rightarrow> real \<Rightarrow> real \<Rightarrow> real option" where
  "monitored_div_at eps a b = (if \<bar>b\<bar> < eps then None else Some (a / b))"

definition TireModel_calculateSlipRatio_monitored ::
  "real \<Rightarrow> real \<Rightarrow> real \<Rightarrow> bool \<Rightarrow> real option" where
  "TireModel_calculateSlipRatio_monitored wheelAngularVelocity vehicleVelocity wheelRadius
     isBraking =
     (let wheelLinearVelocity = wheelAngularVelocity * wheelRadius
      in if \<bar>vehicleVelocity\<bar> < 0.1 \<and> \<bar>wheelLinearVelocity\<bar> < 0.1 then Some 0
         else (case (if isBraking \<or> wheelLinearVelocity < vehicleVelocity
                     then (if \<bar>vehicleVelocity\<bar> < 0.1 then Some (- 1)
                           else monitored_div_at 0.1 (wheelLinearVelocity - vehicleVelocity)
                                  \<bar>vehicleVelocity\<bar>)
                     else (if \<bar>wheelLinearVelocity\<bar> < 0.1 then Some 0
                           else monitored_div_at 0.1 (wheelLinearVelocity - vehicleVelocity)
                                  \<bar>wheelLinearVelocity\<bar>)) of
                 None \<Rightarrow> None
               | Some slipRatio \<Rightarrow> Some (max (- 1) (min 1 slipRatio))))"

text \<open>
  \<^verbatim>\<open>TireModel.updateTireTemperature(currentTemp, slip, load, speed, deltaTime)\<close>, with the
  constructor's \<^verbatim>\<open>heatGenerationRate = 0.5\<close>, \<^verbatim>\<open>coolingRate = 0.1\<close> and
  \<^verbatim>\<open>ambientTemp = 20\<close>.
\<close>

definition heatGenerationRate :: real where
  "heatGenerationRate = 0.5"

definition coolingRate :: real where
  "coolingRate = 0.1"

definition ambientTemp :: real where
  "ambientTemp = 20"

definition updateTireTemperature :: "real \<Rightarrow> real \<Rightarrow> real \<Rightarrow> real \<Rightarrow> real \<Rightarrow> real" where
  "updateTireTemperature currentTemp slip load speed deltaTime =
     (let slipMagnitude = \<bar>slip\<bar>;
          heatGeneration = slipMagnitude * load * speed * heatGenerationRate * 0.0001;
          coolingFactor = 1 + speed * 0.01;
          cooling = (currentTemp - ambientTemp) * coolingRate * coolingFactor * deltaTime;
          newTemp = currentTemp + (heatGeneration - cooling) * deltaTime
      in max ambientTemp (min 150 newTemp))"

section \<open>WeightTransfer\<close>

record wheel_weights =
  FL :: real
  FR :: real
  RL :: real
  RR :: real

text \<open>
  \<^verbatim>\<open>calculateRollEffect(vehicle, rollAngle)\<close>. It divides by the total roll stiffness and
  by both track widths.
\<close>

definition calculateRollEffect :: "vehicle_config \<Rightarrow> real \<Rightarrow> js_error + wheel_weights" where
  "calculateRollEffect vehicle rollAngle =
     (let totalWeight = mass vehicle * gravity;
          rollMoment = totalWeight * cgHeight vehicle * sin rollAngle;
          frontRollStiffness = front (springRate vehicle) * (front (trackWidth vehicle) / 2)\<^sup>2;
          rearRollStiffness = rear (springRate vehicle) * (rear (trackWidth vehicle) / 2)\<^sup>2;
          totalRollStiffness = frontRollStiffness + rearRollStiffness
      in if totalRollStiffness = 0 \<or> front (trackWidth vehicle) = 0 \<or> rear (trackWidth vehicle) = 0
         then Inl NotFinite
         else (let frontRollTransfer =
                     (rollMoment * frontRollStiffness / totalRollStiffness) / front (trackWidth vehicle);
                   rearRollTransfer =
                     (rollMoment * rearRollStiffness / totalRollStiffness) / rear (trackWidth vehicle)
               in Inr \<lparr>FL = - frontRollTransfer, FR = frontRollTransfer,
                       RL = - rearRollTransfer, RR = rearRollTransfer\<rparr>))"

text \<open>\<^verbatim>\<open>calculatePitchEffect(vehicle, pitchAngle)\<close>: the per-wheel front and rear terms.\<close>

definition calculatePitchEffect :: "vehicle_config \<Rightarrow> real \<Rightarrow> js_error + axle_pair" where
  "calculatePitchEffect vehicle pitchAngle =
     (let totalWeight = mass vehicle * gravity;
          pitchMoment = totalWeight * cgHeight vehicle * sin pitchAngle
      in if wheelbase vehicle = 0 then Inl NotFinite
         else (let pitchTransfer = pitchMoment / wheelbase vehicle
               in Inr \<lparr>front = - pitchTransfer / 2, rear = pitchTransfer / 2\<rparr>))"

text \<open>
  The object \<^verbatim>\<open>weights\<close> of \<^verbatim>\<open>calculateCombined\<close> as it stands before the final loop
  that clamps every entry: the static and transferred loads, then the roll and pitch effects
  when the angle given is not zero.
\<close>

definition combinedWeights ::
  "vehicle_config \<Rightarrow> real \<Rightarrow> real \<Rightarrow> real \<Rightarrow> real \<Rightarrow> js_error + wheel_weights" where
  "combinedWeights vehicle lateralG longitudinalG rollAngle pitchAngle =
     (if front (trackWidth vehicle) = 0 \<or> rear (trackWidth vehicle) = 0 \<or> wheelbase vehicle = 0
      then Inl NotFinite
      else
       (let totalWeight = mass vehicle * gravity;
            latTransferFront =
              (totalWeight * front (weightDistribution vehicle) * lateralG * cgHeight vehicle)
                / front (trackWidth vehicle);
            latTransferRear =
              (totalWeight * rear (weightDistribution vehicle) * lateralG * cgHeight vehicle)
                / rear (trackWidth vehicle);
            longTransfer = (totalWeight * longitudinalG * cgHeight vehicle) / wheelbase vehicle;
            staticFront = totalWeight * front (weightDistribution vehicle);
            staticRear = totalWeight * rear (weightDistribution vehicle);
            dynamicFront = staticFront - longTransfer;
            dynamicRear = staticRear + longTransfer;
            weights = \<lparr>FL = (dynamicFront / 2) - latTransferFront,
                       FR = (dynamicFront / 2) + latTransferFront,
                       RL = (dynamicRear / 2) - latTransferRear,
                       RR = (dynamicRear / 2) + latTransferRear\<rparr>
        in case (if rollAngle \<noteq> 0
                 then (case calculateRollEffect vehicle rollAngle of
                         Inl e \<Rightarrow> Inl e
                       | Inr rollEffect \<Rightarrow>
                           Inr \<lparr>FL = FL weights + FL rollEffect, FR = FR weights + FR rollEffect,
                                RL = RL weights + RL rollEffect, RR = RR weights + RR rollEffect\<rparr>)
                 else Inr weights) of
             Inl e \<Rightarrow> Inl e
           | Inr weights1 \<Rightarrow>
               (if pitchAngle \<noteq> 0
                then (case calculatePitchEffect vehicle pitchAngle of
                        Inl e \<Rightarrow> Inl e
                      | Inr pitchEffect \<Rightarrow>
                          Inr \<lparr>FL = FL weights1 + front pitchEffect,
                               FR = FR weights1 + front pitchEffect,
                               RL = RL weights1 + rear pitchEffect,
                               RR = RR weights1 + rear pitchEffect\<rparr>)
                else Inr weights1)))"

text \<open>\<^verbatim>\<open>calculateCombined\<close>: the weights above, each replaced by \<^verbatim>\<open>Math.max(0, w)\<close>.\<close>

definition calculateCombined ::
  "vehicle_config \<Rightarrow> real \<Rightarrow> real \<Rightarrow> real \<Rightarrow> real \<Rightarrow> js_error + wheel_weights" where
  "calculateCombined vehicle lateralG longitudinalG rollAngle pitchAngle =
     (case combinedWeights vehicle lateralG longitudinalG rollAngle pitchAngle of
        Inl e \<Rightarrow> Inl e
      | Inr weights \<Rightarrow>
          Inr \<lparr>FL = max 0 (FL weights), FR = max 0 (FR weights),
               RL = max 0 (RL weights), RR = max 0 (RR weights)\<rparr>)"

section \<open>VehicleDynamics\<close>

record vec3 =
  vec_x :: real
  vec_y :: real
  vec_z :: real

record rigid_body =
  velocity :: vec3
  angularVelocity :: vec3

record wheel =
  wheel_body :: rigid_body

text \<open>The fields of \<^verbatim>\<open>this.state\<close> that the functions below read or write.\<close>

record vehicle_state =
  rpm :: real
  gear :: int
  speed :: real
  throttle :: real
  brake :: real
  steering :: real
  handbrake :: bool
  drsActive :: bool
  wheelLoads :: "real list"
  tireTemps :: "real list"
  brakeTemps :: "real list"
  lateralG :: real
  longitudinalG :: real

text \<open>A \<^verbatim>\<open>VehicleDynamics\<close> object: \<^verbatim>\<open>this\<close> in the methods below.\<close>

record vehicle_dynamics =
  config :: vehicle_config
  body :: rigid_body
  wheels :: "wheel list"
  state :: vehicle_state

text \<open>
  The object that the constructor leaves behind: the physics engine creates the chassis body
  and four wheels, \<^verbatim>\<open>resetPosition\<close> puts every velocity to zero, and the state has
  its idle defaults.
\<close>

definition restingBody :: rigid_body where
  "restingBody = \<lparr>velocity = \<lparr>vec_x = 0, vec_y = 0, vec_z = 0\<rparr>,
                   angularVelocity = \<lparr>vec_x = 0, vec_y = 0, vec_z = 0\<rparr>\<rparr>"

definition newVehicleDynamics :: "vehicle_config \<Rightarrow> vehicle_dynamics" where
  "newVehicleDynamics cfg =
     \<lparr>config = cfg,
      body = restingBody,
      wheels = replicate 4 \<lparr>wheel_body = restingBody\<rparr>,
      state = \<lparr>rpm = idleRPM cfg, gear = 1, speed = 0, throttle = 0, brake = 0, steering = 0,
               handbrake = False, drsActive = False,
               wheelLoads = [0, 0, 0, 0], tireTemps = [20, 20, 20, 20],
               brakeTemps = [20, 20, 20, 20], lateralG = 0, longitudinalG = 0\<rparr>\<rparr>"

text \<open>
  \<^verbatim>\<open>VehicleDynamics.calculateSlipAngle(wheel, index)\<close>, for a wheel that exists. The
  quotient is guarded by the source.
\<close>

definition VehicleDynamics_calculateSlipAngle :: "vehicle_dynamics \<Rightarrow> wheel \<Rightarrow> nat \<Rightarrow> real" where
  "VehicleDynamics_calculateSlipAngle this wheel index =
     (let wheelVelocity = velocity (wheel_body wheel);
          lateralVel = vec_x wheelVelocity;
          longitudinalVel = vec_z wheelVelocity
      in if \<bar>longitudinalVel\<bar> < 0.1 then 0
         else (let slipAngle = arctan (lateralVel / \<bar>longitudinalVel\<bar>)
               in if index < 2 then slipAngle - steering (state this) else slipAngle))"

text \<open>\<^verbatim>\<open>VehicleDynamics.calculateSlipRatio(wheel, index)\<close>, for a wheel that exists.\<close>

definition VehicleDynamics_calculateSlipRatio :: "vehicle_dynamics \<Rightarrow> wheel \<Rightarrow> nat \<Rightarrow> real" where
  "VehicleDynamics_calculateSlipRatio this wheel index =
     (let wheelRadius = radius (tire (config this));
          wheelAngularVel = vec_x (angularVelocity (wheel_body wheel));
          wheelLinearVel = wheelAngularVel * wheelRadius;
          vehicleVel = speed (state this)
      in if vehicleVel < 0.1 then 0
         else (wheelLinearVel - vehicleVel) / vehicleVel)"

text \<open>\<^verbatim>\<open>calculateBrakeForce(wheelIndex)\<close>.\<close>

definition calculateBrakeForce :: "vehicle_dynamics \<Rightarrow> nat \<Rightarrow> real" where
  "calculateBrakeForce this wheelIndex =
     (let maxBrakeForce = (if wheelIndex < 2 then front (brakeForce (config this))
                           else rear (brakeForce (config this)));
          brakeInput = (if handbrake (state this) \<and> wheelIndex \<ge> 2
                        then max (brake (state this)) 1.0
                        else brake (state this))
      in maxBrakeForce * brakeInput)"

text \<open>
  The loop of \<^verbatim>\<open>getEngineTorque\<close> that looks for the surrounding points: the first
  pair of neighbours whose RPM values enclose \<open>r\<close>.
\<close>

fun surroundingPoints :: "real \<Rightarrow> torque_point list \<Rightarrow> (torque_point \<times> torque_point) option" where
  "surroundingPoints r (p # q # ps) =
     (if point_rpm p \<le> r \<and> r \<le> point_rpm q then Some (p, q)
      else surroundingPoints r (q # ps))"
| "surroundingPoints r ps = None"

text \<open>
  \<^verbatim>\<open>getEngineTorque()\<close>. On an empty curve both default points are \<^verbatim>\<open>undefined\<close>
  and reading \<^verbatim>\<open>lowerPoint.rpm\<close> throws. When no pair encloses the RPM, the defaults stay:
  the first and the last point of the curve.
\<close>

definition getEngineTorque :: "vehicle_dynamics \<Rightarrow> js_error + real" where
  "getEngineTorque this =
     (let curve = torqueCurve (config this);
          r = rpm (state this)
      in if curve = [] then Inl TypeError
         else (let (lowerPoint, upperPoint) =
                     (case surroundingPoints r curve of
                        Some pq \<Rightarrow> pq
                      | None \<Rightarrow> (hd curve, last curve))
               in if point_rpm upperPoint - point_rpm lowerPoint = 0 then Inl NotFinite
                  else (let t = (r - point_rpm lowerPoint)
                                  / (point_rpm upperPoint - point_rpm lowerPoint)
                        in Inr (torque lowerPoint + t * (torque upperPoint - torque lowerPoint)))))"

text \<open>\<^verbatim>\<open>calculateAerodynamicForces()\<close>.\<close>

record aero_forces =
  drag :: real
  frontDownforce :: real
  rearDownforce :: real

definition calculateAerodynamicForces :: "vehicle_dynamics \<Rightarrow> js_error + aero_forces" where
  "calculateAerodynamicForces this =
     (let v = velocity (body this);
          spd = sqrt (vec_x v * vec_x v + vec_y v * vec_y v + vec_z v * vec_z v);
          speedSquared = spd * spd;
          q = 0.5 * airDensity * speedSquared;
          dragForce = q * dragCoefficient (config this) * frontalArea (config this)
      in case downforceCoefficient (config this) of
           None \<Rightarrow> Inr \<lparr>drag = dragForce, frontDownforce = 0, rearDownforce = 0\<rparr>
         | Some coefficient \<Rightarrow>
             (let totalDownforce =
                    q * (front coefficient + rear coefficient) * frontalArea (config this)
              in if drsActive (state this) \<and> drs (config this) = None then Inl TypeError
                 else (case (if spd > 13.9 then groundEffectMultiplier (config this) else Some 1.0,
                             downforceBalance (config this)) of
                         (Some groundEffect, Some balance) \<Rightarrow>
                           (let drsMultiplier =
                                  (case (drsActive (state this), drs (config this)) of
                                     (True, Some d) \<Rightarrow> 1 - downforceReduction d
                                   | _ \<Rightarrow> 1)
                            in Inr \<lparr>drag = dragForce,
                                    frontDownforce = totalDownforce * balance * groundEffect,
                                    rearDownforce = totalDownforce * (1 - balance) * groundEffect
                                                      * drsMultiplier\<rparr>)
                       | _ \<Rightarrow> Inl NotFinite)))"

text \<open>
  The gear rule at the end of \<^verbatim>\<open>updateEngine\<close>, applied to the RPM just stored; \<open>n\<close> is
  \<^verbatim>\<open>gearRatios.length\<close>.
\<close>

definition autoShift :: "jsnum \<Rightarrow> real \<Rightarrow> int \<Rightarrow> int \<Rightarrow> int" where
  "autoShift r maxR n g =
     (if jn_less (Num (maxR * 0.95)) r \<and> g < n then g + 1
      else if jn_less r (Num (maxR * 0.5)) \<and> g > 1 then g - 1
      else g)"

text \<open>
  \<^verbatim>\<open>updateEngine(deltaTime)\<close>, from a state whose RPM is finite. It writes
  \<^verbatim>\<open>this.state.rpm\<close> and \<^verbatim>\<open>this.state.gear\<close> and nothing else; the model answers
  the two values it leaves there. \<^verbatim>\<open>gearRatios[gear - 1]\<close> is \<^verbatim>\<open>undefined\<close> outside
  the list, which makes the product \<^verbatim>\<open>NaN\<close>; a wheel radius of zero makes the wheel RPM
  infinite or \<^verbatim>\<open>NaN\<close>, and the clamp brings an infinity back between the idle and the
  maximum RPM.
\<close>

definition updateEngine :: "vehicle_dynamics \<Rightarrow> real \<Rightarrow> jsnum \<times> int" where
  "updateEngine this deltaTime =
     (let cfg = config this;
          st = state this;
          wheelRadius = radius (tire cfg);
          wheelRPM = jn_times (jn_div (speed st) (2 * pi * wheelRadius)) (Num 60);
          gearRatio = (if 1 \<le> gear st \<and> gear st \<le> int (length (gearRatios cfg))
                       then Num (gearRatios cfg ! nat (gear st - 1)) else NaN);
          targetRPM = jn_times (jn_times wheelRPM gearRatio) (Num (finalDrive cfg));
          rpmDiff = jn_minus targetRPM (Num (rpm st));
          rpm1 = jn_plus (Num (rpm st)) (jn_times (jn_times rpmDiff (Num deltaTime)) (Num 5));
          rpm2 = Math_max (Num (idleRPM cfg)) (Math_min (Num (maxRPM cfg)) rpm1);
          gear2 = autoShift rpm2 (maxRPM cfg) (int (length (gearRatios cfg))) (gear st)
      in (rpm2, gear2))"

text \<open>
  \<^verbatim>\<open>updateTemperatures(deltaTime)\<close>. The two \<^verbatim>\<open>forEach\<close> loops visit every stored
  temperature with its index. The first reads \<^verbatim>\<open>this.wheels[index]\<close>, which throws when
  the wheel is missing, and \<^verbatim>\<open>this.state.wheelLoads[index]\<close>, which makes the
  temperature \<^verbatim>\<open>NaN\<close> when the load is missing.
\<close>

definition tireTempStep :: "vehicle_dynamics \<Rightarrow> real \<Rightarrow> nat \<times> real \<Rightarrow> real" where
  "tireTempStep this deltaTime = (\<lambda>(index, temp).
     (let load = wheelLoads (state this) ! index;
          slip = \<bar>VehicleDynamics_calculateSlipAngle this (wheels this ! index) index\<bar>;
          heatGeneration = slip * load * 0.001;
          cooling = (temp - 20) * 0.1 * deltaTime
      in temp + heatGeneration - cooling))"

definition brakeTempStep :: "vehicle_dynamics \<Rightarrow> real \<Rightarrow> nat \<times> real \<Rightarrow> real" where
  "brakeTempStep this deltaTime = (\<lambda>(index, temp).
     (let brakeForce = calculateBrakeForce this index;
          heatGeneration = brakeForce * speed (state this) * 0.00001;
          cooling = (temp - 20) * 0.5 * deltaTime
      in temp + heatGeneration - cooling))"

definition updateTemperatures :: "vehicle_dynamics \<Rightarrow> real \<Rightarrow> js_error + vehicle_dynamics" where
  "updateTemperatures this deltaTime =
     (let st = state this
      in if length (wheels this) < length (tireTemps st) then Inl TypeError
         else if length (wheelLoads st) < length (tireTemps st) then Inl NotFinite
         else (let tireTemps1 = map (tireTempStep this deltaTime) (enumerate 0 (tireTemps st));
                   brakeTemps1 =
                     (if brake st > 0
                      then map (brakeTempStep this deltaTime) (enumerate 0 (brakeTemps st))
                      else brakeTemps st)
               in Inr (this\<lparr>state := st\<lparr>tireTemps := tireTemps1, brakeTemps := brakeTemps1\<rparr>\<rparr>)))"

section \<open>Tire forces\<close>

lemma Math_pow_nonneg:
  assumes "0 \<le> x" "0 < y"
  shows "Math_pow x y = Inr (x powr y)"
  using assms by (auto simp: Math_pow_def)

lemma magnitude_scaled_aux:
  fixes a b c t :: real
  assumes "0 < c" "c\<^sup>2 = a * a + b * b"
  shows "sqrt ((a * (t / c))\<^sup>2 + (b * (t / c))\<^sup>2) = \<bar>t\<bar>"
proof -
  have "(a * (t / c))\<^sup>2 + (b * (t / c))\<^sup>2 = (a * a + b * b) * (t / c)\<^sup>2"
    by (simp only: power_mult_distrib power2_eq_square [of a] power2_eq_square [of b]
        distrib_right)
  also have "\<dots> = c\<^sup>2 * (t / c)\<^sup>2" by (simp only: assms(2))
  also have "\<dots> = (c * (t / c))\<^sup>2" by (simp only: power_mult_distrib)
  also have "c * (t / c) = t" using assms(1) by simp
  finally show ?thesis by simp
qed

lemma magnitude_scaled:
  fixes a b t :: real
  assumes "0 < sqrt (a * a + b * b)"
  shows "sqrt ((a * (t / sqrt (a * a + b * b)))\<^sup>2 + (b * (t / sqrt (a * a + b * b)))\<^sup>2)
           = \<bar>t\<bar>"
proof (rule magnitude_scaled_aux [OF assms])
  have "0 \<le> a * a + b * b" by simp
  then show "(sqrt (a * a + b * b))\<^sup>2 = a * a + b * b" by (rule real_sqrt_pow2)
qed

lemma calculateForce_bound:
  assumes "0 \<le> L" "0 < loadSensitivity tc" "0 \<le> pacejka_D (pacejka tc)"
  shows "\<exists>F. calculateForce s L tc = Inr F \<and>
           \<bar>F\<bar> \<le> pacejka_D (pacejka tc) * L * (L / (9.81 * 250)) powr loadSensitivity tc"
proof -
  let ?lf = "(L / (9.81 * 250)) powr loadSensitivity tc"
  let ?D = "pacejka_D (pacejka tc) * L * ?lf"
  have p: "Math_pow (L / (9.81 * 250)) (loadSensitivity tc) = Inr ?lf"
    using assms by (intro Math_pow_nonneg) simp_all
  have D0: "0 \<le> ?D" using assms by simp
  have "\<bar>d * sin x\<bar> \<le> d" if "0 \<le> d" for d x :: real
  proof -
    have "\<bar>d * sin x\<bar> = d * \<bar>sin x\<bar>" using that by (simp only: abs_mult abs_of_nonneg)
    also have "\<dots> \<le> d * 1" using that by (intro mult_left_mono) simp_all
    finally show ?thesis by simp
  qed
  from this [OF D0] show ?thesis using p by (simp add: calculateForce_def Let_def)
qed

lemma combined_force_bound:
  assumes "0 \<le> L" "0 < loadSensitivity tc" "0 \<le> pacejka_D (pacejka tc)"
    "pacejka_D (pacejka tc) \<le> peakMu tc"
  shows "\<exists>f. calculateCombinedForce sl slo L tc = Inr f \<and>
           sqrt ((lateral f)\<^sup>2 + (longitudinal f)\<^sup>2)
             \<le> peakMu tc * L * (L / (9.81 * 250)) powr loadSensitivity tc"
proof -
  let ?cs = "sqrt (sl * sl + slo * slo)"
  let ?lf = "(L / (9.81 * 250)) powr loadSensitivity tc"
  have mono: "pacejka_D (pacejka tc) * L * ?lf \<le> peakMu tc * L * ?lf"
    using assms by (intro mult_right_mono) simp_all
  have nn: "0 \<le> peakMu tc * L * ?lf" using assms by simp
  show ?thesis
  proof (cases "?cs < 0.001")
    case True
    then show ?thesis using nn by (simp add: calculateCombinedForce_def Let_def)
  next
    case False
    then have "(1 / 1000 :: real) \<le> ?cs" by simp
    then have pos: "0 < ?cs" by linarith
    obtain F where F: "calculateForce ?cs L tc = Inr F"
      and Fb: "\<bar>F\<bar> \<le> pacejka_D (pacejka tc) * L * ?lf"
      using calculateForce_bound [OF assms(1-3)] by blast
    have "sqrt ((sl * (F / ?cs))\<^sup>2 + (slo * (F / ?cs))\<^sup>2) = \<bar>F\<bar>"
      using pos by (rule magnitude_scaled)
    then show ?thesis using False F Fb mono
      by (simp add: calculateCombinedForce_def Let_def)
  qed
qed

text \<open>
  Claim C2 (friction circle). For each of the two shipped tire parameter sets, every load
  \<open>L \<ge> 0\<close> and all slip inputs, \<^verbatim>\<open>calculateCombinedForce\<close> returns a force pair whose
  Euclidean magnitude is at most \<open>peakMu * L * loadFactor\<close>, where \<open>loadFactor\<close> is the value
  \<^verbatim>\<open>Math.pow(L / (9.81 * 250), loadSensitivity)\<close> that \<^verbatim>\<open>calculateForce\<close> computes.
\<close>

theorem friction_circle_bound:
  assumes "0 \<le> L" and "tireConfig = RX8_tire \<or> tireConfig = F1_tire"
  shows "\<exists>f loadFactor.
           calculateCombinedForce slipLateral slipLongitudinal L tireConfig = Inr f \<and>
           Math_pow (L / (9.81 * 250)) (loadSensitivity tireConfig) = Inr loadFactor \<and>
           sqrt ((lateral f)\<^sup>2 + (longitudinal f)\<^sup>2) \<le> peakMu tireConfig * L * loadFactor"
proof -
  from assms(2) have t: "0 < loadSensitivity tireConfig" "0 \<le> pacejka_D (pacejka tireConfig)"
    "pacejka_D (pacejka tireConfig) \<le> peakMu tireConfig"
    by (auto simp: RX8_tire_def F1_tire_def)
  have "Math_pow (L / (9.81 * 250)) (loadSensitivity tireConfig)
          = Inr ((L / (9.81 * 250)) powr loadSensitivity tireConfig)"
    using assms(1) t(1) by (intro Math_pow_nonneg) simp_all
  with combined_force_bound [OF assms(1) t, of slipLateral slipLongitudinal]
  show ?thesis by blast
qed

text \<open>
  The bound at the street tire under its nominal load of \<open>2452.5\<close> N with a slip angle of
  \<open>0.1\<close> and a slip ratio of \<open>0.05\<close>.
\<close>

theorem friction_circle_bound_witness:
  "(0::real) \<le> 2452.5 \<and>
   (\<exists>f loadFactor.
      calculateCombinedForce 0.1 0.05 2452.5 RX8_tire = Inr f \<and>
      Math_pow (2452.5 / (9.81 * 250)) (loadSensitivity RX8_tire) = Inr loadFactor \<and>
      sqrt ((lateral f)\<^sup>2 + (longitudinal f)\<^sup>2) \<le> peakMu RX8_tire * 2452.5 * loadFactor)"
proof -
  have h: "(0::real) \<le> 2452.5" by simp
  from friction_circle_bound [OF h, of RX8_tire "0.1" "0.05"] h show ?thesis by blast
qed

text \<open>
  Claim C4 (near-zero combined slip). Whatever the load and the tire parameters, a combined
  slip below \<open>0.001\<close> gives the object with both forces 0, and the quotient by the combined
  slip is never taken with a denominator of magnitude below \<open>0.001\<close>: the monitored function
  never reports such a division and agrees with the plain one.
\<close>

theorem near_zero_slip_zero_force:
  "calculateCombinedForce_monitored slipLateral slipLongitudinal load tireConfig
     = Some (calculateCombinedForce slipLateral slipLongitudinal load tireConfig) \<and>
   (sqrt (slipLateral * slipLateral + slipLongitudinal * slipLongitudinal) < 0.001 \<longrightarrow>
      calculateCombinedForce slipLateral slipLongitudinal load tireConfig =
        Inr \<lparr>lateral = 0, longitudinal = 0, combinedSlip = None, utilizationRatio = None\<rparr>)"
proof -
  have "monitored_div t c = Some (t / c)" if "\<not> c < 0.001" for t c :: real
    using that by (simp add: monitored_div_def)
  then show ?thesis
    by (simp add: calculateCombinedForce_monitored_def calculateCombinedForce_def Let_def
        split: sum.splits)
qed

theorem near_zero_slip_zero_force_witness:
  "sqrt (0 * 0 + 0 * 0) < (0.001::real) \<and>
   calculateCombinedForce 0 0 3000 RX8_tire =
     Inr \<lparr>lateral = 0, longitudinal = 0, combinedSlip = None, utilizationRatio = None\<rparr>"
  using near_zero_slip_zero_force [of 0 0 3000 RX8_tire] by simp

section \<open>Slip ratio and slip angle\<close>

text \<open>
  Claim C5, as stated, fails: with the vehicle and the wheel both at rest the first guard of
  \<^verbatim>\<open>TireModel.calculateSlipRatio\<close> answers 0 before the braking branch is looked at.
\<close>

theorem slip_ratio_at_rest_counterexample:
  "TireModel_calculateSlipRatio 0 0 0.323 True = 0 \<and>
   TireModel_calculateSlipRatio 0 0 0.323 True \<noteq> - 1"
  by (simp add: TireModel_calculateSlipRatio_def)

text \<open>
  Claim C5, amended. With the vehicle speed below \<open>0.1\<close> in magnitude the slip ratio is 0
  when the wheel's linear speed is below \<open>0.1\<close> in magnitude too (so at rest under full
  braking it is 0, not \<open>-1\<close>); it is \<open>-1\<close>, the locked-wheel branch, when the braking branch is
  taken, by the braking flag or by a wheel linear velocity below the vehicle velocity, with
  a wheel linear speed of magnitude at least \<open>0.1\<close>; and otherwise it is the quotient by the
  wheel's linear speed, clamped. For all inputs, no quotient is taken with a denominator of
  magnitude below \<open>0.1\<close>, so none by zero: the monitored function never reports such a
  division and agrees with the plain one.
\<close>

theorem slip_ratio_low_speed:
  "TireModel_calculateSlipRatio_monitored w v r b = Some (TireModel_calculateSlipRatio w v r b) \<and>
   (\<bar>v\<bar> < 0.1 \<and> \<bar>w * r\<bar> < 0.1 \<longrightarrow> TireModel_calculateSlipRatio w v r b = 0) \<and>
   (\<bar>v\<bar> < 0.1 \<and> \<not> \<bar>w * r\<bar> < 0.1 \<and> (b \<or> w * r < v) \<longrightarrow>
      TireModel_calculateSlipRatio w v r b = - 1) \<and>
   (\<bar>v\<bar> < 0.1 \<and> \<not> \<bar>w * r\<bar> < 0.1 \<and> \<not> (b \<or> w * r < v) \<longrightarrow>
      TireModel_calculateSlipRatio w v r b = max (- 1) (min 1 ((w * r - v) / \<bar>w * r\<bar>)))"
proof -
  have m: "monitored_div_at 0.1 a \<bar>c\<bar> = Some (a / \<bar>c\<bar>)" if "\<not> \<bar>c\<bar> < 0.1" for a c :: real
    using that by (simp add: monitored_div_at_def)
  have 1: "TireModel_calculateSlipRatio_monitored w v r b
             = Some (TireModel_calculateSlipRatio w v r b)"
    by (simp add: TireModel_calculateSlipRatio_monitored_def TireModel_calculateSlipRatio_def
        Let_def m)
  have 2: "\<bar>v\<bar> < 0.1 \<and> \<bar>w * r\<bar> < 0.1 \<longrightarrow> TireModel_calculateSlipRatio w v r b = 0"
    by (simp add: TireModel_calculateSlipRatio_def Let_def)
  have 3: "\<bar>v\<bar> < 0.1 \<and> \<not> \<bar>w * r\<bar> < 0.1 \<and> (b \<or> w * r < v) \<longrightarrow>
      TireModel_calculateSlipRatio w v r b = - 1"
    by (auto simp: TireModel_calculateSlipRatio_def Let_def)
  have 4: "\<bar>v\<bar> < 0.1 \<and> \<not> \<bar>w * r\<bar> < 0.1 \<and> \<not> (b \<or> w * r < v) \<longrightarrow>
      TireModel_calculateSlipRatio w v r b = max (- 1) (min 1 ((w * r - v) / \<bar>w * r\<bar>))"
    by (simp add: TireModel_calculateSlipRatio_def Let_def)
  from 1 2 3 4 show ?thesis by blast
qed

text \<open>
  The vehicle at rest with a wheel of radius \<open>0.323\<close>: at rest under braking (0), turning
  forwards under braking (\<open>-1\<close>), turning backwards without the braking flag (\<open>-1\<close>), and
  turning forwards without it (1).
\<close>

theorem slip_ratio_low_speed_witness:
  "TireModel_calculateSlipRatio 0 0 0.323 True = 0 \<and>
   TireModel_calculateSlipRatio 1 0 0.323 True = - 1 \<and>
   TireModel_calculateSlipRatio (- 1) 0 0.323 False = - 1 \<and>
   TireModel_calculateSlipRatio 1 0 0.323 False = 1 \<and>
   TireModel_calculateSlipRatio_monitored 0 0 0.323 True = Some 0"
  using slip_ratio_low_speed [where v = 0 and w = 0 and r = "0.323" and b = True]
    slip_ratio_low_speed [where v = 0 and w = 1 and r = "0.323" and b = True]
    slip_ratio_low_speed [where v = 0 and w = "- 1" and r = "0.323" and b = False]
    slip_ratio_low_speed [where v = 0 and w = 1 and r = "0.323" and b = False]
  by simp

lemma TireModel_slip_ratio_range:
  "- 1 \<le> TireModel_calculateSlipRatio w v r b \<and> TireModel_calculateSlipRatio w v r b \<le> 1"
  by (simp add: TireModel_calculateSlipRatio_def Let_def)

lemma TireModel_slip_angle_range:
  "- (pi / 2) \<le> TireModel_calculateSlipAngle lat lon st \<and>
   TireModel_calculateSlipAngle lat lon st \<le> pi / 2"
  using pi_gt_zero by (auto simp: TireModel_calculateSlipAngle_def Let_def max_def min_def)

lemma VehicleDynamics_slip_angle_unsteered:
  assumes "2 \<le> index \<or> steering (state this) = 0"
  shows "- (pi / 2) \<le> VehicleDynamics_calculateSlipAngle this wh index \<and>
         VehicleDynamics_calculateSlipAngle this wh index \<le> pi / 2"
  using assms
    arctan_lbound [of "vec_x (velocity (wheel_body wh)) / \<bar>vec_z (velocity (wheel_body wh))\<bar>"]
    arctan_ubound [of "vec_x (velocity (wheel_body wh)) / \<bar>vec_z (velocity (wheel_body wh))\<bar>"]
  by (auto simp: VehicleDynamics_calculateSlipAngle_def Let_def)

lemma VehicleDynamics_slip_angle_steered:
  "\<bar>VehicleDynamics_calculateSlipAngle this wh index\<bar> \<le> pi / 2 + \<bar>steering (state this)\<bar>"
  using
    arctan_lbound [of "vec_x (velocity (wheel_body wh)) / \<bar>vec_z (velocity (wheel_body wh))\<bar>"]
    arctan_ubound [of "vec_x (velocity (wheel_body wh)) / \<bar>vec_z (velocity (wheel_body wh))\<bar>"]
  by (auto simp: VehicleDynamics_calculateSlipAngle_def Let_def)

lemma VehicleDynamics_slip_ratio_lower:
  assumes "0 \<le> vec_x (angularVelocity (wheel_body wh)) * radius (tire (config this))"
  shows "- 1 \<le> VehicleDynamics_calculateSlipRatio this wh index"
  using assms by (auto simp: VehicleDynamics_calculateSlipRatio_def Let_def field_simps)

text \<open>
  Claim C3, as stated, fails for the per-wheel computations of \<^verbatim>\<open>VehicleDynamics\<close>, which
  do not clamp. A rear wheel of the street car turning at 10 rad/s while the car moves at
  1 m/s has a slip ratio above 1, and a front wheel sliding sideways with one radian of
  steering has a slip angle below \<open>-\<pi>/2\<close>.
\<close>

theorem vehicle_slip_unclamped_counterexample:
  "1 < VehicleDynamics_calculateSlipRatio
         ((newVehicleDynamics RX8_CONFIG)
            \<lparr>state := (state (newVehicleDynamics RX8_CONFIG))\<lparr>speed := 1\<rparr>\<rparr>)
         \<lparr>wheel_body = restingBody\<lparr>angularVelocity := \<lparr>vec_x = 10, vec_y = 0, vec_z = 0\<rparr>\<rparr>\<rparr> 2 \<and>
   VehicleDynamics_calculateSlipAngle
         ((newVehicleDynamics RX8_CONFIG)
            \<lparr>state := (state (newVehicleDynamics RX8_CONFIG))\<lparr>steering := 1\<rparr>\<rparr>)
         \<lparr>wheel_body = restingBody\<lparr>velocity := \<lparr>vec_x = - 1, vec_y = 0, vec_z = 1\<rparr>\<rparr>\<rparr> 0
     < - (pi / 2)"
proof
  show "1 < VehicleDynamics_calculateSlipRatio
         ((newVehicleDynamics RX8_CONFIG)
            \<lparr>state := (state (newVehicleDynamics RX8_CONFIG))\<lparr>speed := 1\<rparr>\<rparr>)
         \<lparr>wheel_body = restingBody\<lparr>angularVelocity := \<lparr>vec_x = 10, vec_y = 0, vec_z = 0\<rparr>\<rparr>\<rparr> 2"
    by (simp add: VehicleDynamics_calculateSlipRatio_def newVehicleDynamics_def RX8_CONFIG_def
        RX8_tire_def restingBody_def)
  show "VehicleDynamics_calculateSlipAngle
         ((newVehicleDynamics RX8_CONFIG)
            \<lparr>state := (state (newVehicleDynamics RX8_CONFIG))\<lparr>steering := 1\<rparr>\<rparr>)
         \<lparr>wheel_body = restingBody\<lparr>velocity := \<lparr>vec_x = - 1, vec_y = 0, vec_z = 1\<rparr>\<rparr>\<rparr> 0
     < - (pi / 2)"
    using pi_less_4
    by (simp add: VehicleDynamics_calculateSlipAngle_def newVehicleDynamics_def restingBody_def
        arctan_minus arctan_one)
qed

text \<open>
  Claim C3, amended. The helpers of the tire model return a slip ratio in \<open>[-1, 1]\<close> and a
  slip angle in \<open>[-\<pi>/2, \<pi>/2]\<close> for all inputs. The per-wheel computations of
  \<^verbatim>\<open>VehicleDynamics\<close> are not clamped: the slip angle is in \<open>[-\<pi>/2, \<pi>/2]\<close> for a rear wheel
  (index 2 or 3) or with zero steering and within \<open>\<pi>/2 + |steering|\<close> in general, and the slip
  ratio is at least \<open>-1\<close> when the wheel does not turn backwards, with no upper bound.
\<close>

theorem slip_outputs_ranges:
  "- 1 \<le> TireModel_calculateSlipRatio w v r b \<and> TireModel_calculateSlipRatio w v r b \<le> 1 \<and>
   - (pi / 2) \<le> TireModel_calculateSlipAngle lat lon st \<and>
   TireModel_calculateSlipAngle lat lon st \<le> pi / 2 \<and>
   (2 \<le> index \<or> steering (state this) = 0 \<longrightarrow>
      - (pi / 2) \<le> VehicleDynamics_calculateSlipAngle this wh index \<and>
      VehicleDynamics_calculateSlipAngle this wh index \<le> pi / 2) \<and>
   \<bar>VehicleDynamics_calculateSlipAngle this wh index\<bar> \<le> pi / 2 + \<bar>steering (state this)\<bar> \<and>
   (0 \<le> vec_x (angularVelocity (wheel_body wh)) * radius (tire (config this)) \<longrightarrow>
      - 1 \<le> VehicleDynamics_calculateSlipRatio this wh index)"
  using TireModel_slip_ratio_range [of w v r b] TireModel_slip_angle_range [of lat lon st]
    VehicleDynamics_slip_angle_unsteered [of index this wh]
    VehicleDynamics_slip_angle_steered [of this wh index]
    VehicleDynamics_slip_ratio_lower [of wh this index]
  by blast

text \<open>The ranges for a rear wheel of the street car that turns at 10 rad/s at 1 m/s.\<close>

theorem slip_outputs_ranges_witness:
  "(2::nat) \<le> 2 \<and>
   0 \<le> vec_x (angularVelocity (wheel_body
          \<lparr>wheel_body = restingBody\<lparr>angularVelocity := \<lparr>vec_x = 10, vec_y = 0, vec_z = 0\<rparr>\<rparr>\<rparr>))
        * radius (tire (config ((newVehicleDynamics RX8_CONFIG)
            \<lparr>state := (state (newVehicleDynamics RX8_CONFIG))\<lparr>speed := 1\<rparr>\<rparr>))) \<and>
   - (pi / 2) \<le> VehicleDynamics_calculateSlipAngle
         ((newVehicleDynamics RX8_CONFIG)
            \<lparr>state := (state (newVehicleDynamics RX8_CONFIG))\<lparr>speed := 1\<rparr>\<rparr>)
         \<lparr>wheel_body = restingBody\<lparr>angularVelocity := \<lparr>vec_x = 10, vec_y = 0, vec_z = 0\<rparr>\<rparr>\<rparr> 2 \<and>
   VehicleDynamics_calculateSlipAngle
         ((newVehicleDynamics RX8_CONFIG)
            \<lparr>state := (state (newVehicleDynamics RX8_CONFIG))\<lparr>speed := 1\<rparr>\<rparr>)
         \<lparr>wheel_body = restingBody\<lparr>angularVelocity := \<lparr>vec_x = 10, vec_y = 0, vec_z = 0\<rparr>\<rparr>\<rparr> 2
     \<le> pi / 2 \<and>
   - 1 \<le> VehicleDynamics_calculateSlipRatio
         ((newVehicleDynamics RX8_CONFIG)
            \<lparr>state := (state (newVehicleDynamics RX8_CONFIG))\<lparr>speed := 1\<rparr>\<rparr>)
         \<lparr>wheel_body = restingBody\<lparr>angularVelocity := \<lparr>vec_x = 10, vec_y = 0, vec_z = 0\<rparr>\<rparr>\<rparr> 2"
proof -
  have h: "0 \<le> vec_x (angularVelocity (wheel_body
          \<lparr>wheel_body = restingBody\<lparr>angularVelocity := \<lparr>vec_x = 10, vec_y = 0, vec_z = 0\<rparr>\<rparr>\<rparr>))
        * radius (tire (config ((newVehicleDynamics RX8_CONFIG)
            \<lparr>state := (state (newVehicleDynamics RX8_CONFIG))\<lparr>speed := 1\<rparr>\<rparr>)))"
    by (simp add: newVehicleDynamics_def RX8_CONFIG_def RX8_tire_def)
  from h slip_outputs_ranges [where index = 2
      and this = "(newVehicleDynamics RX8_CONFIG)
            \<lparr>state := (state (newVehicleDynamics RX8_CONFIG))\<lparr>speed := 1\<rparr>\<rparr>"
      and wh = "\<lparr>wheel_body = restingBody\<lparr>angularVelocity := \<lparr>vec_x = 10, vec_y = 0, vec_z = 0\<rparr>\<rparr>\<rparr>"]
  show ?thesis by simp
qed

section \<open>Weight transfer\<close>

lemma rollEffect_sum:
  "calculateRollEffect v a = Inr e \<Longrightarrow> FL e + FR e + RL e + RR e = 0"
  by (auto simp: calculateRollEffect_def Let_def split: if_splits)

lemma pitchEffect_sum:
  "calculatePitchEffect v a = Inr e \<Longrightarrow> front e + rear e = 0"
  by (auto simp: calculatePitchEffect_def Let_def split: if_splits)

lemma combinedWeights_sum:
  assumes "combinedWeights v a b r p = Inr w"
  shows "FL w + FR w + RL w + RR w
           = mass v * gravity * (front (weightDistribution v) + rear (weightDistribution v))"
proof -
  from assms have nz: "front (trackWidth v) \<noteq> 0" "rear (trackWidth v) \<noteq> 0" "wheelbase v \<noteq> 0"
    by (auto simp: combinedWeights_def split: if_splits)
  show ?thesis
  proof (cases "r = 0")
    case r0: True
    show ?thesis
    proof (cases "p = 0")
      case True
      with r0 nz assms show ?thesis
        by (auto simp: combinedWeights_def Let_def algebra_simps)
    next
      case False
      with r0 nz assms obtain e where "calculatePitchEffect v p = Inr e"
        by (auto simp: combinedWeights_def Let_def split: sum.splits)
      with False r0 nz assms pitchEffect_sum [of v p e] show ?thesis
        by (auto simp: combinedWeights_def Let_def algebra_simps)
    qed
  next
    case r1: False
    with nz assms obtain re where re: "calculateRollEffect v r = Inr re"
      by (auto simp: combinedWeights_def Let_def split: sum.splits)
    show ?thesis
    proof (cases "p = 0")
      case True
      with r1 nz assms re rollEffect_sum [OF re] show ?thesis
        by (auto simp: combinedWeights_def Let_def algebra_simps)
    next
      case False
      with r1 nz assms re obtain e where e: "calculatePitchEffect v p = Inr e"
        by (auto simp: combinedWeights_def Let_def split: sum.splits)
      with False r1 nz assms re rollEffect_sum [OF re] pitchEffect_sum [OF e] show ?thesis
        by (auto simp: combinedWeights_def Let_def algebra_simps)
    qed
  qed
qed

lemma combinedWeights_finite:
  assumes "front (trackWidth v) \<noteq> 0" "rear (trackWidth v) \<noteq> 0" "wheelbase v \<noteq> 0"
    and "r = 0 \<or> front (springRate v) * (front (trackWidth v) / 2)\<^sup>2
                   + rear (springRate v) * (rear (trackWidth v) / 2)\<^sup>2 \<noteq> 0"
  shows "\<exists>w. combinedWeights v a b r p = Inr w"
  using assms
  by (auto simp: combinedWeights_def calculateRollEffect_def calculatePitchEffect_def Let_def)

text \<open>
  Claim C1, as stated, fails: nothing makes the two static weight fractions of a
  configuration sum to 1, and the four loads sum to the weight times that sum. With the
  street car's data and both fractions at \<open>0.6\<close>, at zero acceleration, no load is clamped
  and the loads sum to \<open>1.2\<close> times the weight.
\<close>

theorem wheel_load_sum_counterexample:
  "combinedWeights (RX8_CONFIG\<lparr>weightDistribution := \<lparr>front = 0.6, rear = 0.6\<rparr>\<rparr>) 0 0 0 0
     = Inr \<lparr>FL = 4090.77, FR = 4090.77, RL = 4090.77, RR = 4090.77\<rparr> \<and>
   calculateCombined (RX8_CONFIG\<lparr>weightDistribution := \<lparr>front = 0.6, rear = 0.6\<rparr>\<rparr>) 0 0 0 0
     = Inr \<lparr>FL = 4090.77, FR = 4090.77, RL = 4090.77, RR = 4090.77\<rparr> \<and>
   4090.77 + 4090.77 + 4090.77 + 4090.77
     \<noteq> mass (RX8_CONFIG\<lparr>weightDistribution := \<lparr>front = 0.6, rear = 0.6\<rparr>\<rparr>) * gravity"
  by (simp add: calculateCombined_def combinedWeights_def RX8_CONFIG_def gravity_def Let_def)

text \<open>
  Claim C1, amended. For a configuration whose front and rear static weight fractions sum
  to 1, and for all accelerations and roll and pitch angles: when the weights computed by
  \<^verbatim>\<open>calculateCombined\<close> are finite and none is negative, the final clamp changes nothing
  and the four returned loads sum to \<open>mass * gravity\<close>. The positivity of the mass and the
  bounds on the accelerations are not needed; the weights are finite when the wheelbase and
  both track widths are not zero and, for a roll angle other than 0, the total roll
  stiffness is not zero (lemma \<open>combinedWeights_finite\<close>).
\<close>

theorem wheel_load_sum:
  assumes "front (weightDistribution vehicle) + rear (weightDistribution vehicle) = 1"
    and "combinedWeights vehicle latG longG rollAngle pitchAngle = Inr w"
    and "0 \<le> FL w" "0 \<le> FR w" "0 \<le> RL w" "0 \<le> RR w"
  shows "calculateCombined vehicle latG longG rollAngle pitchAngle = Inr w \<and>
         FL w + FR w + RL w + RR w = mass vehicle * gravity"
  using assms combinedWeights_sum [OF assms(2)] by (simp add: calculateCombined_def max_def)

text \<open>The street car cornering at 0.5 g while braking at 0.5 g.\<close>

theorem wheel_load_sum_witness:
  "front (weightDistribution RX8_CONFIG) + rear (weightDistribution RX8_CONFIG) = 1 \<and>
   combinedWeights RX8_CONFIG 0.5 (- 0.5) 0 0
     = Inr \<lparr>FL = 2954.445, FR = 4999.83,
            RL = 2840.8125 - 1227231 / 1204, RR = 2840.8125 + 1227231 / 1204\<rparr> \<and>
   calculateCombined RX8_CONFIG 0.5 (- 0.5) 0 0
     = Inr \<lparr>FL = 2954.445, FR = 4999.83,
            RL = 2840.8125 - 1227231 / 1204, RR = 2840.8125 + 1227231 / 1204\<rparr> \<and>
   2954.445 + 4999.83 + (2840.8125 - 1227231 / 1204) + (2840.8125 + 1227231 / 1204)
     = mass RX8_CONFIG * gravity"
proof -
  let ?w = "\<lparr>FL = 2954.445, FR = 4999.83,
            RL = 2840.8125 - 1227231 / 1204, RR = 2840.8125 + 1227231 / 1204 :: real\<rparr>"
  have d: "front (weightDistribution RX8_CONFIG) + rear (weightDistribution RX8_CONFIG) = 1"
    by (simp add: RX8_CONFIG_def)
  have c: "combinedWeights RX8_CONFIG 0.5 (- 0.5) 0 0 = Inr ?w"
    by (simp add: combinedWeights_def RX8_CONFIG_def gravity_def Let_def)
  have n: "0 \<le> FL ?w" "0 \<le> FR ?w" "0 \<le> RL ?w" "0 \<le> RR ?w" by simp_all
  from wheel_load_sum [OF d c n] d c show ?thesis by simp
qed

section \<open>Engine torque\<close>

lemma surroundingPoints_outside:
  assumes "(\<forall>p \<in> set ps. r < point_rpm p) \<or> (\<forall>p \<in> set ps. point_rpm p < r)"
  shows "surroundingPoints r ps = None"
  using assms by (induction r ps rule: surroundingPoints.induct) auto

lemma surroundingPoints_bracket:
  assumes "sorted_wrt (<) (map point_rpm ps)" "Suc i < length ps"
    "point_rpm (ps ! i) \<le> r" "r \<le> point_rpm (ps ! Suc i)"
  shows "\<exists>j. Suc j < length ps \<and> surroundingPoints r ps = Some (ps ! j, ps ! Suc j) \<and>
             (j = i \<or> (Suc j = i \<and> r = point_rpm (ps ! i)))"
  using assms
proof (induction r ps arbitrary: i rule: surroundingPoints.induct)
  case (1 r p q ps)
  show ?case
  proof (cases "point_rpm p \<le> r \<and> r \<le> point_rpm q")
    case True
    show ?thesis
    proof (cases i)
      case 0
      with True show ?thesis by auto
    next
      case (Suc k)
      have "point_rpm q \<le> point_rpm ((q # ps) ! k)"
      proof (cases k)
        case 0 then show ?thesis by simp
      next
        case (Suc m)
        with "1.prems"(1,2) \<open>i = Suc k\<close> have "point_rpm q < point_rpm (ps ! m)"
          by auto
        with Suc show ?thesis by simp
      qed
      with True "1.prems"(3) Suc have eq: "r = point_rpm q" "point_rpm ((q # ps) ! k) = point_rpm q"
        by auto
      have "k = 0"
      proof (rule ccontr)
        assume "k \<noteq> 0"
        then obtain m where m: "k = Suc m" by (cases k) auto
        with "1.prems"(1,2) \<open>i = Suc k\<close> have "point_rpm q < point_rpm (ps ! m)" by auto
        with eq m show False by simp
      qed
      with True Suc eq show ?thesis by auto
    qed
  next
    case False
    with "1.prems" obtain k where k: "i = Suc k" by (cases i) auto
    from "1.prems"(1) have s: "sorted_wrt (<) (map point_rpm (q # ps))" by simp
    from "1.IH" [OF False s, of k] "1.prems" k
    obtain j where "Suc j < length (q # ps)"
      "surroundingPoints r (q # ps) = Some ((q # ps) ! j, (q # ps) ! Suc j)"
      "j = k \<or> (Suc j = k \<and> r = point_rpm ((q # ps) ! k))"
      by auto
    with False k show ?thesis
      by (intro exI [of _ "Suc j"]) auto
  qed
qed simp_all


lemma curve_nth_less:
  assumes "sorted_wrt (<) (map point_rpm ps)" "i < j" "j < length ps"
  shows "point_rpm (ps ! i) < point_rpm (ps ! j)"
proof -
  from assms(1) have "sorted_wrt (\<lambda>x y. point_rpm x < point_rpm y) ps"
    by (simp add: sorted_wrt_map)
  from sorted_wrt_nth_less [OF this assms(2,3)] show ?thesis .
qed

lemma sorted_first_last:
  assumes "sorted_wrt (<) (map point_rpm ps)" "2 \<le> length ps"
  shows "point_rpm (hd ps) < point_rpm (last ps)"
proof -
  from assms(2) have ne: "ps \<noteq> []" by auto
  have "point_rpm (ps ! 0) < point_rpm (ps ! (length ps - 1))"
    using assms by (intro curve_nth_less) auto
  with ne show ?thesis by (simp add: hd_conv_nth last_conv_nth)
qed

lemma sorted_all_above:
  assumes "sorted_wrt (<) (map point_rpm ps)" "ps \<noteq> []" "r < point_rpm (hd ps)"
  shows "\<forall>p \<in> set ps. r < point_rpm p"
proof
  fix p assume "p \<in> set ps"
  then obtain i where i: "i < length ps" "p = ps ! i" by (auto simp: in_set_conv_nth)
  have "point_rpm (ps ! 0) \<le> point_rpm (ps ! i)"
  proof (cases "i = 0")
    case True then show ?thesis by simp
  next
    case False
    with i assms(1) curve_nth_less [of ps 0 i] show ?thesis by simp
  qed
  with assms(2,3) i show "r < point_rpm p" by (simp add: hd_conv_nth)
qed

lemma sorted_all_below:
  assumes "sorted_wrt (<) (map point_rpm ps)" "ps \<noteq> []" "point_rpm (last ps) < r"
  shows "\<forall>p \<in> set ps. point_rpm p < r"
proof
  fix p assume "p \<in> set ps"
  then obtain i where i: "i < length ps" "p = ps ! i" by (auto simp: in_set_conv_nth)
  have "point_rpm (ps ! i) \<le> point_rpm (ps ! (length ps - 1))"
  proof (cases "i = length ps - 1")
    case True then show ?thesis by simp
  next
    case False
    with i have "i < length ps - 1" "length ps - 1 < length ps" by simp_all
    from curve_nth_less [OF assms(1) this] show ?thesis by simp
  qed
  with assms(2,3) i show "point_rpm p < r" by (simp add: last_conv_nth)
qed

lemma torque_between:
  assumes "sorted_wrt (<) (map point_rpm (torqueCurve (config this)))"
    "Suc i < length (torqueCurve (config this))"
    "point_rpm (torqueCurve (config this) ! i) \<le> rpm (state this)"
    "rpm (state this) \<le> point_rpm (torqueCurve (config this) ! Suc i)"
  shows "getEngineTorque this =
     Inr (torque (torqueCurve (config this) ! i)
          + (rpm (state this) - point_rpm (torqueCurve (config this) ! i))
              / (point_rpm (torqueCurve (config this) ! Suc i) - point_rpm (torqueCurve (config this) ! i))
              * (torque (torqueCurve (config this) ! Suc i) - torque (torqueCurve (config this) ! i)))"
proof -
  let ?ps = "torqueCurve (config this)" and ?r = "rpm (state this)"
  from surroundingPoints_bracket [OF assms]
  obtain j where j: "Suc j < length ?ps" "surroundingPoints ?r ?ps = Some (?ps ! j, ?ps ! Suc j)"
    "j = i \<or> (Suc j = i \<and> ?r = point_rpm (?ps ! i))" by blast
  have lt: "point_rpm (?ps ! k) < point_rpm (?ps ! Suc k)" if "Suc k < length ?ps" for k
    using assms(1) that by (intro curve_nth_less) auto
  from assms(2) have ne: "?ps \<noteq> []" by auto
  from j(3) show ?thesis
  proof
    assume "j = i"
    with j ne lt [OF assms(2)] show ?thesis by (simp add: getEngineTorque_def Let_def)
  next
    assume a: "Suc j = i \<and> ?r = point_rpm (?ps ! i)"
    with j ne lt [OF j(1)] lt [OF assms(2)] show ?thesis
      by (simp add: getEngineTorque_def Let_def)
  qed
qed

lemma torque_outside:
  assumes "sorted_wrt (<) (map point_rpm (torqueCurve (config this)))"
    "2 \<le> length (torqueCurve (config this))"
    "rpm (state this) < point_rpm (hd (torqueCurve (config this))) \<or>
     point_rpm (last (torqueCurve (config this))) < rpm (state this)"
  shows "getEngineTorque this =
     Inr (torque (hd (torqueCurve (config this)))
          + (rpm (state this) - point_rpm (hd (torqueCurve (config this))))
              / (point_rpm (last (torqueCurve (config this))) - point_rpm (hd (torqueCurve (config this))))
              * (torque (last (torqueCurve (config this))) - torque (hd (torqueCurve (config this)))))"
proof -
  let ?ps = "torqueCurve (config this)" and ?r = "rpm (state this)"
  from assms(2) have ne: "?ps \<noteq> []" by auto
  have "surroundingPoints ?r ?ps = None"
    using assms(3) sorted_all_above [OF assms(1) ne] sorted_all_below [OF assms(1) ne]
    by (intro surroundingPoints_outside) blast
  with ne sorted_first_last [OF assms(1,2)] show ?thesis
    by (simp add: getEngineTorque_def Let_def)
qed

text \<open>
  Claim C6, as stated, fails below the first sample: the street car at its idle RPM of 850,
  under the first sample of its curve (3000 RPM, 200 Nm), gets \<open>643/3\<close> Nm, not 200.
\<close>

theorem engine_torque_not_clamped_counterexample:
  "getEngineTorque (newVehicleDynamics RX8_CONFIG) = Inr (643 / 3) \<and>
   rpm (state (newVehicleDynamics RX8_CONFIG))
     < point_rpm (hd (torqueCurve (config (newVehicleDynamics RX8_CONFIG)))) \<and>
   torque (hd (torqueCurve (config (newVehicleDynamics RX8_CONFIG)))) = 200 \<and>
   getEngineTorque (newVehicleDynamics RX8_CONFIG) \<noteq> Inr 200"
  by (simp add: getEngineTorque_def newVehicleDynamics_def RX8_CONFIG_def Let_def)

text \<open>
  Claim C6, amended. On a torque curve with strictly increasing RPM samples, the lookup
  returns the linear interpolation between the two neighbouring samples that enclose the
  RPM (208 for the curve \<open>[(3000, 200), (5500, 216)]\<close> at 4250 RPM). For an RPM below the
  first or above the last sample it does not clamp: it returns the value at that RPM of
  the straight line through the first and the last sample of the curve.
\<close>

theorem engine_torque_interpolation:
  assumes "sorted_wrt (<) (map point_rpm (torqueCurve (config this)))"
  shows
    "(Suc i < length (torqueCurve (config this)) \<and>
      point_rpm (torqueCurve (config this) ! i) \<le> rpm (state this) \<and>
      rpm (state this) \<le> point_rpm (torqueCurve (config this) ! Suc i) \<longrightarrow>
        getEngineTorque this =
          Inr (torque (torqueCurve (config this) ! i)
               + (rpm (state this) - point_rpm (torqueCurve (config this) ! i))
                   / (point_rpm (torqueCurve (config this) ! Suc i)
                        - point_rpm (torqueCurve (config this) ! i))
                   * (torque (torqueCurve (config this) ! Suc i)
                        - torque (torqueCurve (config this) ! i)))) \<and>
     (2 \<le> length (torqueCurve (config this)) \<and>
      (rpm (state this) < point_rpm (hd (torqueCurve (config this))) \<or>
       point_rpm (last (torqueCurve (config this))) < rpm (state this)) \<longrightarrow>
        getEngineTorque this =
          Inr (torque (hd (torqueCurve (config this)))
               + (rpm (state this) - point_rpm (hd (torqueCurve (config this))))
                   / (point_rpm (last (torqueCurve (config this)))
                        - point_rpm (hd (torqueCurve (config this))))
                   * (torque (last (torqueCurve (config this)))
                        - torque (hd (torqueCurve (config this)))))) \<and>
     (torqueCurve (config this)
        = [\<lparr>point_rpm = 3000, torque = 200\<rparr>, \<lparr>point_rpm = 5500, torque = 216\<rparr>] \<and>
      rpm (state this) = 4250 \<longrightarrow> getEngineTorque this = Inr 208)"
proof (intro conjI impI)
  assume "Suc i < length (torqueCurve (config this)) \<and>
      point_rpm (torqueCurve (config this) ! i) \<le> rpm (state this) \<and>
      rpm (state this) \<le> point_rpm (torqueCurve (config this) ! Suc i)"
  then show "getEngineTorque this =
          Inr (torque (torqueCurve (config this) ! i)
               + (rpm (state this) - point_rpm (torqueCurve (config this) ! i))
                   / (point_rpm (torqueCurve (config this) ! Suc i)
                        - point_rpm (torqueCurve (config this) ! i))
                   * (torque (torqueCurve (config this) ! Suc i)
                        - torque (torqueCurve (config this) ! i)))"
    using torque_between [OF assms, of i] by blast
next
  assume "2 \<le> length (torqueCurve (config this)) \<and>
      (rpm (state this) < point_rpm (hd (torqueCurve (config this))) \<or>
       point_rpm (last (torqueCurve (config this))) < rpm (state this))"
  then show "getEngineTorque this =
          Inr (torque (hd (torqueCurve (config this)))
               + (rpm (state this) - point_rpm (hd (torqueCurve (config this))))
                   / (point_rpm (last (torqueCurve (config this)))
                        - point_rpm (hd (torqueCurve (config this))))
                   * (torque (last (torqueCurve (config this)))
                        - torque (hd (torqueCurve (config this)))))"
    using torque_outside [OF assms] by blast
next
  assume "torqueCurve (config this)
        = [\<lparr>point_rpm = 3000, torque = 200\<rparr>, \<lparr>point_rpm = 5500, torque = 216\<rparr>] \<and>
      rpm (state this) = 4250"
  then show "getEngineTorque this = Inr 208"
    by (simp add: getEngineTorque_def Let_def)
qed

text \<open>
  The street car at 4250 RPM, between its first two samples, and at its idle RPM, below
  the first.
\<close>

theorem engine_torque_interpolation_witness:
  "sorted_wrt (<) (map point_rpm (torqueCurve (config (newVehicleDynamics RX8_CONFIG)))) \<and>
   getEngineTorque ((newVehicleDynamics RX8_CONFIG)
       \<lparr>state := (state (newVehicleDynamics RX8_CONFIG))\<lparr>rpm := 4250\<rparr>\<rparr>) = Inr 208 \<and>
   getEngineTorque (newVehicleDynamics RX8_CONFIG) = Inr (200 + (850 - 3000) / (9000 - 3000) * (160 - 200)) \<and>
   getEngineTorque ((newVehicleDynamics RX8_CONFIG)
       \<lparr>config := RX8_CONFIG\<lparr>torqueCurve :=
            [\<lparr>point_rpm = 3000, torque = 200\<rparr>, \<lparr>point_rpm = 5500, torque = 216\<rparr>]\<rparr>,
        state := (state (newVehicleDynamics RX8_CONFIG))\<lparr>rpm := 4250\<rparr>\<rparr>) = Inr 208"
proof -
  let ?X = "newVehicleDynamics RX8_CONFIG"
  let ?Y = "?X\<lparr>state := (state ?X)\<lparr>rpm := 4250\<rparr>\<rparr>"
  let ?Z = "?X\<lparr>config := RX8_CONFIG\<lparr>torqueCurve :=
            [\<lparr>point_rpm = 3000, torque = 200\<rparr>, \<lparr>point_rpm = 5500, torque = 216\<rparr>]\<rparr>,
        state := (state ?X)\<lparr>rpm := 4250\<rparr>\<rparr>"
  have sX: "sorted_wrt (<) (map point_rpm (torqueCurve (config ?X)))"
    by (simp add: newVehicleDynamics_def RX8_CONFIG_def)
  have sY: "sorted_wrt (<) (map point_rpm (torqueCurve (config ?Y)))"
    by (simp add: newVehicleDynamics_def RX8_CONFIG_def)
  have sZ: "sorted_wrt (<) (map point_rpm (torqueCurve (config ?Z)))"
    by simp
  have a: "getEngineTorque ?Y = Inr 208"
    using engine_torque_interpolation [OF sY, of 0]
    by (simp add: newVehicleDynamics_def RX8_CONFIG_def)
  have b: "getEngineTorque ?X = Inr (200 + (850 - 3000) / (9000 - 3000) * (160 - 200))"
    using engine_torque_interpolation [OF sX, of 0]
    by (simp add: newVehicleDynamics_def RX8_CONFIG_def)
  have c: "getEngineTorque ?Z = Inr 208"
    using engine_torque_interpolation [OF sZ, of 0] by simp
  from sX a b c show ?thesis by blast
qed

section \<open>Gear selection\<close>






text \<open>The RPM left by \<^verbatim>\<open>updateEngine\<close> is never an infinity: the clamp removes it.\<close>

lemma updateEngine_rpm_not_infinite:
  "fst (updateEngine this dt) = NaN \<or> (\<exists>r. fst (updateEngine this dt) = Num r)"
proof -
  have "Math_max (Num a) (Math_min (Num b) x) = NaN \<or>
        (\<exists>r. Math_max (Num a) (Math_min (Num b) x) = Num r)" for a b x
    by (cases x) (auto simp: Math_min_def Math_max_def)
  then show ?thesis by (simp add: updateEngine_def Let_def)
qed

text \<open>
  With a wheel radius of zero at 10 m/s the wheel RPM is infinite, the clamp stores the
  maximum RPM and the street car shifts from first to second gear.
\<close>

lemma updateEngine_zero_radius:
  "updateEngine ((newVehicleDynamics (RX8_CONFIG\<lparr>tire := RX8_tire\<lparr>radius := 0\<rparr>\<rparr>))
       \<lparr>state := (state (newVehicleDynamics RX8_CONFIG))\<lparr>speed := 10\<rparr>\<rparr>) (1 / 60)
     = (Num 9000, 2)"
  by (simp add: updateEngine_def newVehicleDynamics_def RX8_CONFIG_def RX8_tire_def Let_def
      autoShift_def jn_div_def jn_minus_def Math_min_def Math_max_def)




section \<open>Aerodynamics\<close>

text \<open>
  Claim C8 (no downforce configured). For a configuration without downforce coefficients,
  at every chassis velocity, the aerodynamic computation returns a front and a rear
  downforce of 0 and the drag \<open>1/2 * airDensity * speed\<^sup>2 * dragCoefficient * frontalArea\<close>,
  where \<open>speed\<^sup>2\<close> is the squared length of the velocity.
\<close>

theorem no_downforce_drag_only:
  assumes "downforceCoefficient (config this) = None"
  shows "calculateAerodynamicForces this =
     Inr \<lparr>drag = 1 / 2 * airDensity
                 * ((vec_x (velocity (body this)))\<^sup>2 + (vec_y (velocity (body this)))\<^sup>2
                      + (vec_z (velocity (body this)))\<^sup>2)
                 * dragCoefficient (config this) * frontalArea (config this),
          frontDownforce = 0, rearDownforce = 0\<rparr>"
proof -
  have "sqrt (a * a + b * b + c * c) * sqrt (a * a + b * b + c * c) = a\<^sup>2 + b\<^sup>2 + c\<^sup>2"
    for a b c :: real
  proof -
    have "0 \<le> a * a + b * b + c * c" by (simp add: add_nonneg_nonneg)
    then show ?thesis by (simp add: power2_eq_square)
  qed
  with assms show ?thesis
    by (simp add: calculateAerodynamicForces_def Let_def)
qed

text \<open>The street car, which has no downforce coefficients, at 30 m/s: a drag of 341.775 N.\<close>

theorem no_downforce_drag_only_witness:
  "downforceCoefficient RX8_CONFIG = None \<and>
   calculateAerodynamicForces ((newVehicleDynamics RX8_CONFIG)
       \<lparr>body := restingBody\<lparr>velocity := \<lparr>vec_x = 0, vec_y = 0, vec_z = 30\<rparr>\<rparr>\<rparr>)
     = Inr \<lparr>drag = 341.775, frontDownforce = 0, rearDownforce = 0\<rparr>"
proof -
  let ?V = "(newVehicleDynamics RX8_CONFIG)
       \<lparr>body := restingBody\<lparr>velocity := \<lparr>vec_x = 0, vec_y = 0, vec_z = 30\<rparr>\<rparr>\<rparr>"
  have h: "downforceCoefficient (config ?V) = None"
    by (simp add: newVehicleDynamics_def RX8_CONFIG_def)
  from no_downforce_drag_only [OF h] h show ?thesis
    by (simp add: newVehicleDynamics_def RX8_CONFIG_def airDensity_def)
qed

section \<open>Temperatures\<close>

lemma updateTemperatures_total:
  assumes "length (tireTemps (state this)) \<le> length (wheels this)"
    "length (tireTemps (state this)) \<le> length (wheelLoads (state this))"
  shows "\<exists>this'. updateTemperatures this dt = Inr this'"
  using assms by (simp add: updateTemperatures_def Let_def)

lemma updateTemperatures_tires:
  assumes "updateTemperatures this dt = Inr this'"
  shows "length (tireTemps (state this')) = length (tireTemps (state this)) \<and>
    (\<forall>i < length (tireTemps (state this)).
       tireTemps (state this') ! i =
         tireTemps (state this) ! i
         + \<bar>VehicleDynamics_calculateSlipAngle this (wheels this ! i) i\<bar>
             * (wheelLoads (state this) ! i) * 0.001
         - (tireTemps (state this) ! i - 20) * 0.1 * dt)"
  using assms
  by (auto simp: updateTemperatures_def Let_def tireTempStep_def nth_enumerate_eq split: if_splits)

lemma updateTemperatures_brakes:
  assumes "updateTemperatures this dt = Inr this'"
  shows "length (brakeTemps (state this')) = length (brakeTemps (state this)) \<and>
    (\<forall>i < length (brakeTemps (state this)).
       brakeTemps (state this') ! i =
         (if brake (state this) > 0
          then brakeTemps (state this) ! i
               + calculateBrakeForce this i * speed (state this) * 0.00001
               - (brakeTemps (state this) ! i - 20) * 0.5 * dt
          else brakeTemps (state this) ! i))"
  using assms
  by (auto simp: updateTemperatures_def Let_def brakeTempStep_def nth_enumerate_eq split: if_splits)

text \<open>
  Claim C9, as stated, fails for the temperatures stored by \<^verbatim>\<open>VehicleDynamics\<close>, which are
  not clamped. The street car with every tire at 150 degrees, 4000 N on every wheel, moving
  straight at 10 m/s with a steering angle of \<open>-0.1\<close>: after a step of 1/60 s the front left
  tire is above 150 degrees.
\<close>

theorem stored_tire_temperature_counterexample:
  "\<not> isl (updateTemperatures ((newVehicleDynamics RX8_CONFIG)
      \<lparr>wheels := replicate 4
         \<lparr>wheel_body = restingBody\<lparr>velocity := \<lparr>vec_x = 0, vec_y = 0, vec_z = 10\<rparr>\<rparr>\<rparr>,
       state := (state (newVehicleDynamics RX8_CONFIG))
          \<lparr>steering := - 0.1, wheelLoads := [4000, 4000, 4000, 4000],
           tireTemps := [150, 150, 150, 150]\<rparr>\<rparr>) (1 / 60)) \<and>
   150 < hd (tireTemps (state (projr (updateTemperatures ((newVehicleDynamics RX8_CONFIG)
      \<lparr>wheels := replicate 4
         \<lparr>wheel_body = restingBody\<lparr>velocity := \<lparr>vec_x = 0, vec_y = 0, vec_z = 10\<rparr>\<rparr>\<rparr>,
       state := (state (newVehicleDynamics RX8_CONFIG))
          \<lparr>steering := - 0.1, wheelLoads := [4000, 4000, 4000, 4000],
           tireTemps := [150, 150, 150, 150]\<rparr>\<rparr>) (1 / 60)))))"
  by (simp add: updateTemperatures_def Let_def newVehicleDynamics_def tireTempStep_def
      VehicleDynamics_calculateSlipAngle_def restingBody_def enumerate_eq_zip upt_rec
      numeral_2_eq_2 numeral_3_eq_3)

text \<open>
  Claim C9, amended. \<^verbatim>\<open>TireModel.updateTireTemperature\<close> returns a value between the
  ambient 20 and 150 degrees for all inputs. \<^verbatim>\<open>VehicleDynamics.updateTemperatures\<close> does
  not clamp: it stores for every tire \<open>temp + |slip angle| * load * 0.001 - (temp - 20) * 0.1 *
  deltaTime\<close>, and for every brake, when the brake input is positive,
  \<open>temp + brakeForce * speed * 0.00001 - (temp - 20) * 0.5 * deltaTime\<close>.
\<close>

theorem temperature_updates:
  "ambientTemp \<le> updateTireTemperature currentTemp slip load spd dt \<and>
   updateTireTemperature currentTemp slip load spd dt \<le> 150 \<and>
   ambientTemp = 20 \<and>
   (updateTemperatures this deltaTime = Inr this' \<longrightarrow>
      (\<forall>i < length (tireTemps (state this)).
         tireTemps (state this') ! i =
           tireTemps (state this) ! i
           + \<bar>VehicleDynamics_calculateSlipAngle this (wheels this ! i) i\<bar>
               * (wheelLoads (state this) ! i) * 0.001
           - (tireTemps (state this) ! i - 20) * 0.1 * deltaTime) \<and>
      (\<forall>i < length (brakeTemps (state this)).
         brakeTemps (state this') ! i =
           (if brake (state this) > 0
            then brakeTemps (state this) ! i
                 + calculateBrakeForce this i * speed (state this) * 0.00001
                 - (brakeTemps (state this) ! i - 20) * 0.5 * deltaTime
            else brakeTemps (state this) ! i)))"
proof -
  have "ambientTemp \<le> updateTireTemperature currentTemp slip load spd dt \<and>
        updateTireTemperature currentTemp slip load spd dt \<le> 150 \<and> ambientTemp = 20"
    by (simp add: updateTireTemperature_def Let_def ambientTemp_def)
  then show ?thesis
    using updateTemperatures_tires [of this deltaTime this']
      updateTemperatures_brakes [of this deltaTime this']
    by blast
qed

text \<open>
  The street car braking fully at 30 m/s from its initial temperatures, over a step of
  1/60 s: the front left brake goes from 20 to 21.05 degrees and the front left tire stays
  at 20.
\<close>

theorem temperature_updates_witness:
  "\<not> isl (updateTemperatures ((newVehicleDynamics RX8_CONFIG)
      \<lparr>state := (state (newVehicleDynamics RX8_CONFIG))\<lparr>speed := 30, brake := 1\<rparr>\<rparr>) (1 / 60)) \<and>
   tireTemps (state (projr (updateTemperatures ((newVehicleDynamics RX8_CONFIG)
      \<lparr>state := (state (newVehicleDynamics RX8_CONFIG))\<lparr>speed := 30, brake := 1\<rparr>\<rparr>) (1 / 60)))) ! 0
     = 20 \<and>
   brakeTemps (state (projr (updateTemperatures ((newVehicleDynamics RX8_CONFIG)
      \<lparr>state := (state (newVehicleDynamics RX8_CONFIG))\<lparr>speed := 30, brake := 1\<rparr>\<rparr>) (1 / 60)))) ! 0
     = 21.05"
proof -
  let ?A = "(newVehicleDynamics RX8_CONFIG)
      \<lparr>state := (state (newVehicleDynamics RX8_CONFIG))\<lparr>speed := 30, brake := 1\<rparr>\<rparr>"
  let ?B = "projr (updateTemperatures ?A (1 / 60))"
  have r: "\<not> isl (updateTemperatures ?A (1 / 60))"
    by (simp add: updateTemperatures_def Let_def newVehicleDynamics_def)
  then have u: "updateTemperatures ?A (1 / 60) = Inr ?B" by (cases "updateTemperatures ?A (1 / 60)") auto
  have l: "0 < length (tireTemps (state ?A))" "0 < length (brakeTemps (state ?A))"
    by (simp_all add: newVehicleDynamics_def)
  from temperature_updates [of _ _ _ _ _ ?A "1 / 60" ?B] u l
  have "tireTemps (state ?B) ! 0 =
           tireTemps (state ?A) ! 0
           + \<bar>VehicleDynamics_calculateSlipAngle ?A (wheels ?A ! 0) 0\<bar>
               * (wheelLoads (state ?A) ! 0) * 0.001
           - (tireTemps (state ?A) ! 0 - 20) * 0.1 * (1 / 60)"
    and "brakeTemps (state ?B) ! 0 =
           (if brake (state ?A) > 0
            then brakeTemps (state ?A) ! 0
                 + calculateBrakeForce ?A 0 * speed (state ?A) * 0.00001
                 - (brakeTemps (state ?A) ! 0 - 20) * 0.5 * (1 / 60)
            else brakeTemps (state ?A) ! 0)"
    by blast+
  then have "tireTemps (state ?B) ! 0 = 20" "brakeTemps (state ?B) ! 0 = 21.05"
    by (simp_all add: newVehicleDynamics_def RX8_CONFIG_def calculateBrakeForce_def Let_def)
  with r show ?thesis by blast
qed

text \<open>
  Claim C10 (brake temperatures without braking). When the brake input is not positive, in
  particular when it is 0, whatever the handbrake, a temperature update on a vehicle that
  has a wheel and a load for every tire temperature completes, leaves the list of brake
  temperatures exactly as it was, and still gives every tire temperature its new value.
\<close>

theorem no_braking_keeps_brake_temperatures:
  assumes "\<not> 0 < brake (state this)"
    and "length (tireTemps (state this)) \<le> length (wheels this)"
    and "length (tireTemps (state this)) \<le> length (wheelLoads (state this))"
  shows "\<exists>this'. updateTemperatures this deltaTime = Inr this' \<and>
     brakeTemps (state this') = brakeTemps (state this) \<and>
     length (tireTemps (state this')) = length (tireTemps (state this)) \<and>
     (\<forall>i < length (tireTemps (state this)).
       tireTemps (state this') ! i =
         tireTemps (state this) ! i
         + \<bar>VehicleDynamics_calculateSlipAngle this (wheels this ! i) i\<bar>
             * (wheelLoads (state this) ! i) * 0.001
         - (tireTemps (state this) ! i - 20) * 0.1 * deltaTime)"
proof -
  from updateTemperatures_total [OF assms(2,3)]
  obtain this' where t: "updateTemperatures this deltaTime = Inr this'" by blast
  from t assms(1) have "brakeTemps (state this') = brakeTemps (state this)"
    by (auto simp: updateTemperatures_def Let_def split: if_splits)
  with t updateTemperatures_tires [OF t] show ?thesis by blast
qed

text \<open>
  The street car coasting with the handbrake on, its brakes at 300 degrees and its tires at
  80 degrees, over a step of 1/60 s: the brakes stay at 300 while the front left tire cools
  to 79.9 degrees.
\<close>

theorem no_braking_keeps_brake_temperatures_witness:
  "\<exists>this'. updateTemperatures ((newVehicleDynamics RX8_CONFIG)
      \<lparr>state := (state (newVehicleDynamics RX8_CONFIG))
         \<lparr>speed := 30, handbrake := True, tireTemps := [80, 80, 80, 80],
          brakeTemps := [300, 300, 300, 300]\<rparr>\<rparr>) (1 / 60) = Inr this' \<and>
     brakeTemps (state this') = [300, 300, 300, 300] \<and>
     tireTemps (state this') ! 0 = 79.9"
proof -
  let ?A = "(newVehicleDynamics RX8_CONFIG)
      \<lparr>state := (state (newVehicleDynamics RX8_CONFIG))
         \<lparr>speed := 30, handbrake := True, tireTemps := [80, 80, 80, 80],
          brakeTemps := [300, 300, 300, 300]\<rparr>\<rparr>"
  have h: "\<not> 0 < brake (state ?A)" "length (tireTemps (state ?A)) \<le> length (wheels ?A)"
    "length (tireTemps (state ?A)) \<le> length (wheelLoads (state ?A))"
    by (simp_all add: newVehicleDynamics_def)
  from no_braking_keeps_brake_temperatures [OF h, of "1 / 60"]
  obtain this' where t: "updateTemperatures ?A (1 / 60) = Inr this'"
    "brakeTemps (state this') = brakeTemps (state ?A)"
    "\<forall>i < length (tireTemps (state ?A)).
       tireTemps (state this') ! i =
         tireTemps (state ?A) ! i
         + \<bar>VehicleDynamics_calculateSlipAngle ?A (wheels ?A ! i) i\<bar>
             * (wheelLoads (state ?A) ! i) * 0.001
         - (tireTemps (state ?A) ! i - 20) * 0.1 * (1 / 60)"
    by blast
  have "0 < length (tireTemps (state ?A))" by (simp add: newVehicleDynamics_def)
  with t(3) have "tireTemps (state this') ! 0 =
         tireTemps (state ?A) ! 0
         + \<bar>VehicleDynamics_calculateSlipAngle ?A (wheels ?A ! 0) 0\<bar>
             * (wheelLoads (state ?A) ! 0) * 0.001
         - (tireTemps (state ?A) ! 0 - 20) * 0.1 * (1 / 60)" by blast
  then have "tireTemps (state this') ! 0 = 79.9"
    by (simp add: newVehicleDynamics_def)
  with t(1,2) show ?thesis by (simp add: newVehicleDynamics_def)
qed

end
